theory Spec2Isabelle
  imports Complex_Main
begin

section \<open>Goal documents\<close>

text \<open>
  A goal is a document of the \<open>Goal\<close> collection. The controller reads and writes the
  fields \<open>_id\<close>, \<open>userId\<close>, \<open>name\<close>, \<open>targetAmount\<close>, \<open>currentAmount\<close>,
  \<open>deadline\<close> and \<open>status\<close>. Identifiers are strings. A JavaScript number is an IEEE 754
  binary64 value; a stored amount is the real number that the double denotes.

  The handlers of the goal controller are given with exact sums and differences
  (\<open>credit\<close>, \<open>debit\<close>, \<open>addFundToGoal\<close>), which decides every property that only
  compares amounts. What depends on the computed digits is stated on
  \<open>addFundToGoal_js\<close> and \<open>goal_progress\<close>, where each arithmetic operation is rounded
  to binary64 and the requested amount is the raw JavaScript value.
\<close>

datatype goal_status = InProgress | Completed

record goal =
  goal_id :: string
  userId :: string
  name :: string
  targetAmount :: real
  currentAmount :: real
  deadline :: "int option"
  status :: goal_status

section \<open>JavaScript numbers\<close>

text \<open>
  The result of an arithmetic operation is a finite double, an infinity or \<open>NaN\<close>.
  Negative zero is identified with zero.
\<close>

datatype jsnum = Num real | PosInf | NegInf | NaN

text \<open>\<open>ilog2 n\<close> is \<open>\<lfloor>log\<^sub>2 n\<rfloor>\<close> and \<open>clog2 n\<close> is \<open>\<lceil>log\<^sub>2 n\<rceil>\<close>, for \<open>n \<ge> 1\<close>.\<close>

function ilog2 :: "int \<Rightarrow> int" where
  "ilog2 n = (if n < 2 then 0 else 1 + ilog2 (n div 2))"
  by pat_completeness auto
termination
  by (relation "measure nat") auto

declare ilog2.simps [simp del]

definition clog2 :: "int \<Rightarrow> int" where
  "clog2 n = (if n \<le> 1 then 0 else 1 + ilog2 (n - 1))"

text \<open>The exponent \<open>k\<close> with \<open>2\<^sup>k \<le> x < 2\<^sup>k\<^sup>+\<^sup>1\<close>, for \<open>x > 0\<close>.\<close>

definition binary_exponent :: "real \<Rightarrow> int" where
  "binary_exponent x = (if x \<ge> 1 then ilog2 \<lfloor>x\<rfloor> else - clog2 \<lceil>1 / x\<rceil>)"

definition round_half_even :: "real \<Rightarrow> int" where
  "round_half_even y =
     (let f = \<lfloor>y\<rfloor>; r = y - of_int f
      in if r < 1 / 2 then f else if r > 1 / 2 then f + 1 else if even f then f else f + 1)"

text \<open>
  Rounding of an exact result to binary64, to nearest with ties to even: 53 significant
  bits, the least exponent \<open>-1074\<close> of the subnormal numbers, and overflow to an
  infinity from \<open>2\<^sup>1\<^sup>0\<^sup>2\<^sup>4\<close> on.
\<close>

definition to_double :: "real \<Rightarrow> jsnum" where
  "to_double x =
     (if x = 0 then Num 0
      else (let e = max (binary_exponent \<bar>x\<bar> - 52) (- 1074);
                m = round_half_even (\<bar>x\<bar> / 2 powi e);
                y = of_int m * 2 powi e
            in if y \<ge> 2 ^ 1024 then (if x > 0 then PosInf else NegInf)
               else Num (sgn x * y)))"

text \<open>The operators \<open>+\<close>, \<open>-\<close> and \<open>/\<close> on finite numbers, and \<open>*\<close> by a finite number.\<close>

definition js_add :: "real \<Rightarrow> real \<Rightarrow> jsnum" where
  "js_add x y = to_double (x + y)"

definition js_sub :: "real \<Rightarrow> real \<Rightarrow> jsnum" where
  "js_sub x y = to_double (x - y)"

definition js_div :: "real \<Rightarrow> real \<Rightarrow> jsnum" where
  "js_div x y =
     (if y = 0 then (if x > 0 then PosInf else if x < 0 then NegInf else NaN)
      else to_double (x / y))"

definition js_mul :: "jsnum \<Rightarrow> real \<Rightarrow> jsnum" where
  "js_mul v y =
     (case v of
        Num x \<Rightarrow> to_double (x * y)
      | PosInf \<Rightarrow> (if y > 0 then PosInf else if y < 0 then NegInf else NaN)
      | NegInf \<Rightarrow> (if y > 0 then NegInf else if y < 0 then PosInf else NaN)
      | NaN \<Rightarrow> NaN)"

text \<open>\<open>v > y\<close>, \<open>Math.round(v)\<close> (halves go up) and \<open>Math.min(y, v)\<close>, for a finite \<open>y\<close>.\<close>

definition js_gt :: "jsnum \<Rightarrow> real \<Rightarrow> bool" where
  "js_gt v y = (case v of Num x \<Rightarrow> x > y | PosInf \<Rightarrow> True | NegInf \<Rightarrow> False | NaN \<Rightarrow> False)"

definition Math_round :: "jsnum \<Rightarrow> jsnum" where
  "Math_round v = (case v of Num x \<Rightarrow> Num (of_int (round x)) | PosInf \<Rightarrow> PosInf
                   | NegInf \<Rightarrow> NegInf | NaN \<Rightarrow> NaN)"

definition Math_min :: "real \<Rightarrow> jsnum \<Rightarrow> jsnum" where
  "Math_min y v = (case v of Num x \<Rightarrow> Num (min y x) | PosInf \<Rightarrow> Num y
                   | NegInf \<Rightarrow> NegInf | NaN \<Rightarrow> NaN)"

section \<open>Goal progress in getGoalStats\<close>

text \<open>
  \<open>const progress = (goal.currentAmount / goal.targetAmount) * 100;\<close>
  \<open>progress: progress > 100 ? 100 : Math.round(progress)\<close>

  The quotient and the product are doubles. The handler maps this over the goals of the
  user into \<open>goalsWithProgress\<close>, a local value: the response carries the totals only
  (the line that would add the list is commented out).
\<close>

definition goal_progress :: "goal \<Rightarrow> jsnum" where
  "goal_progress g =
     (let progress = js_mul (js_div (currentAmount g) (targetAmount g)) 100
      in if js_gt progress 100 then Num 100 else Math_round progress)"


text \<open>\<open>Goal.find({ userId })\<close>: the documents of one owner, in collection order.\<close>

definition find_by_user :: "string \<Rightarrow> goal list \<Rightarrow> goal list" where
  "find_by_user u db = filter (\<lambda>g. userId g = u) db"

definition mk_goal :: "real \<Rightarrow> real \<Rightarrow> goal" where
  "mk_goal cur tgt =
     \<lparr> goal_id = ''g'', userId = ''u'', name = ''Goal'', targetAmount = tgt,
       currentAmount = cur, deadline = None, status = InProgress \<rparr>"

section \<open>Requests, responses and external services\<close>

text \<open>
  A handler receives the route parameter \<open>req.params.id\<close>, the JSON body and the
  authenticated \<open>req.user.userId\<close>, and answers with a status code and a JSON object.
\<close>

record 'b request =
  params_id :: string
  body :: 'b
  user_userId :: string

datatype payload =
    NoData
  | ErrorText string
  | Insufficient real real "string option"
  | FundedData goal goal real "string option"
  | GoalData goal

record response =
  code :: nat
  msg :: string
  payload :: payload

text \<open>
  The collaborators the controller imports are parameters of the model:
  \<open>convertToBaseCurrency\<close> (it may throw: \<open>Inl\<close> carries the error message),
  \<open>sendEmail\<close> (\<open>Some\<close> error message when it throws) and the environment variable
  \<open>BASE_CURRENCY\<close> (\<open>None\<close> when unset).
\<close>

record services =
  convertToBaseCurrency :: "real \<Rightarrow> string option \<Rightarrow> string + real"
  sendEmail :: "string \<Rightarrow> string \<Rightarrow> string \<Rightarrow> string option"
  BASE_CURRENCY :: "string option"

text \<open>
  The state is the goal collection together with the trace of calls made to the
  collaborators and to the persistence layer, oldest first.
\<close>

datatype effect = CurrencyConversion | GoalRead | GoalWrite string | EmailSent

record world =
  goals :: "goal list"
  trace :: "effect list"

definition emit :: "effect list \<Rightarrow> world \<Rightarrow> world" where
  "emit es w = w\<lparr>trace := trace w @ es\<rparr>"

text \<open>
  \<open>doc.save()\<close> of a loaded document sends the modified paths to the stored document
  with the same \<open>_id\<close>. The handlers below assign \<open>currentAmount\<close> and \<open>status\<close>
  only; a path counts as modified when its value differs from the loaded one.
  Persistence calls are taken to succeed.
\<close>

definition save :: "goal \<Rightarrow> goal \<Rightarrow> goal list \<Rightarrow> goal list" where
  "save loaded doc db =
     map (\<lambda>d. if goal_id d = goal_id doc
               then d\<lparr>currentAmount :=
                        (if currentAmount doc = currentAmount loaded then currentAmount d
                         else currentAmount doc),
                      status :=
                        (if status doc = status loaded then status d else status doc)\<rparr>
               else d) db"

definition findById :: "string \<Rightarrow> goal list \<Rightarrow> goal option" where
  "findById i db = find (\<lambda>d. goal_id d = i) db"

section \<open>Funding a goal (addFundToGoal)\<close>

text \<open>
  The body after \<open>fundGoalSchema.validate\<close>: \<open>amount\<close> is a number or missing,
  \<open>currency\<close> a string or missing. The schema itself is a parameter
  \<open>validate\<close> returning the pair \<open>(error, value)\<close>.
\<close>

record fund_value =
  amount :: "real option"
  currency :: "string option"

text \<open>Lines 223-230: credit the goal, cap it at the target and mark it completed.\<close>

definition credit :: "real \<Rightarrow> goal \<Rightarrow> goal" where
  "credit convertedAmount goalToFund =
     (let g = goalToFund\<lparr>currentAmount := currentAmount goalToFund + convertedAmount\<rparr>
      in if currentAmount g \<ge> targetAmount g
         then g\<lparr>currentAmount := targetAmount g, status := Completed\<rparr>
         else g)"

text \<open>Lines 237-244: debit the Savings Goal, floor it at 0 and reset its status there.\<close>

definition debit :: "real \<Rightarrow> goal \<Rightarrow> goal" where
  "debit convertedAmount savingsGoal =
     (let s = savingsGoal\<lparr>currentAmount := currentAmount savingsGoal - convertedAmount\<rparr>
      in if currentAmount s \<le> 0
         then s\<lparr>currentAmount := 0, status := InProgress\<rparr>
         else s)"

definition completion_message :: "goal \<Rightarrow> string" where
  "completion_message g =
     ''Congratulations! You have successfully completed your goal: <strong>'' @ name g
       @ ''</strong>.''"

definition is_savings_goal :: "string \<Rightarrow> goal \<Rightarrow> bool" where
  "is_savings_goal uid g \<longleftrightarrow> userId g = uid \<and> name g = ''Savings Goal''"

definition is_goal_of :: "string \<Rightarrow> string \<Rightarrow> goal \<Rightarrow> bool" where
  "is_goal_of i uid g \<longleftrightarrow> goal_id g = i \<and> userId g = uid"

definition invalid_amount :: response where
  "invalid_amount = \<lparr>code = 400, msg = ''Invalid amount. Must be greater than 0'', payload = NoData\<rparr>"

text \<open>
  The last stage, once both documents are loaded: credit, notify on completion, debit,
  save both. A failing \<open>sendEmail\<close> reaches the outer \<open>catch\<close> before any save.
\<close>

definition transfer ::
  "services \<Rightarrow> string \<Rightarrow> real \<Rightarrow> goal \<Rightarrow> goal \<Rightarrow> world \<Rightarrow> response \<times> world" where
  "transfer sv uid convertedAmount savingsGoal goalToFund w =
     (let funded = credit convertedAmount goalToFund;
          reached = (currentAmount goalToFund + convertedAmount \<ge> targetAmount goalToFund)
      in case (if reached then sendEmail sv uid ''Goal Completed!'' (completion_message funded)
               else None) of
           Some e \<Rightarrow>
             (\<lparr>code = 500, msg = ''Error funding goal'', payload = ErrorText e\<rparr>,
              emit [EmailSent] w)
         | None \<Rightarrow>
             (let savings = debit convertedAmount savingsGoal;
                  db1 = save goalToFund funded (goals w);
                  db2 = save savingsGoal savings db1
              in (\<lparr>code = 200, msg = ''Goal funded successfully'',
                   payload = FundedData funded savings convertedAmount (BASE_CURRENCY sv)\<rparr>,
                  emit ((if reached then [EmailSent] else [])
                         @ [GoalWrite (goal_id funded), GoalWrite (goal_id savings)])
                       (w\<lparr>goals := db2\<rparr>))))"

definition addFundToGoal ::
  "('b \<Rightarrow> string option \<times> fund_value) \<Rightarrow> services \<Rightarrow> 'b request \<Rightarrow> world
     \<Rightarrow> response \<times> world" where
  "addFundToGoal validate sv req w =
     (let id = params_id req;
          (error, val) = validate (body req);
          userId = user_userId req
      in case amount val of
           None \<Rightarrow> (invalid_amount, w)
         | Some amt \<Rightarrow>
             if amt = 0 \<or> amt \<le> 0 then (invalid_amount, w)
             else
               (case convertToBaseCurrency sv amt (currency val) of
                  Inl e \<Rightarrow>
                    (\<lparr>code = 500, msg = ''Error converting currency'', payload = ErrorText e\<rparr>,
                     emit [CurrencyConversion] w)
                | Inr convertedAmount \<Rightarrow>
                    (let w1 = emit [CurrencyConversion, GoalRead] w
                     in case find (is_savings_goal userId) (goals w) of
                          None \<Rightarrow>
                            (\<lparr>code = 404, msg = ''Savings Goal not found'', payload = NoData\<rparr>, w1)
                        | Some savingsGoal \<Rightarrow>
                            if convertedAmount > currentAmount savingsGoal
                            then (\<lparr>code = 400, msg = ''Insufficient funds in Savings Goal'',
                                   payload = Insufficient (currentAmount savingsGoal)
                                               convertedAmount (BASE_CURRENCY sv)\<rparr>, w1)
                            else
                              (let w2 = emit [GoalRead] w1
                               in case find (is_goal_of id userId) (goals w) of
                                    None \<Rightarrow>
                                      (\<lparr>code = 404, msg = ''Goal to fund not found'',
                                        payload = NoData\<rparr>, w2)
                                  | Some goalToFund \<Rightarrow>
                                      transfer sv userId convertedAmount savingsGoal goalToFund w2))))"

section \<open>Funding a goal on JavaScript values (addFundToGoal_js)\<close>

text \<open>
  The same handler with the request's amount as it arrives and with the sum and the
  difference rounded to binary64. \<open>fundGoalSchema.validate\<close> hands back the value it was
  given when validation fails, so \<open>value.amount\<close> can be any JSON value: \<open>Obj\<close> stands
  for an object or an array and carries the string its conversion to a primitive gives.
  Numbers are finite, in the request and in what the currency conversion returns.
\<close>

datatype js_value = Undefined | Null | Bool bool | Number real | Str string | Obj string

text \<open>\<open>!amount\<close> is the negation of \<open>truthy\<close>.\<close>

definition truthy :: "js_value \<Rightarrow> bool" where
  "truthy v =
     (case v of Undefined \<Rightarrow> False | Null \<Rightarrow> False | Bool b \<Rightarrow> b | Number x \<Rightarrow> x \<noteq> 0
      | Str s \<Rightarrow> s \<noteq> [] | Obj s \<Rightarrow> True)"

text \<open>
  The number a value is compared as in \<open>amount <= 0\<close>; \<open>None\<close> is \<open>NaN\<close>. The
  conversion of a string is the language's, a parameter here.
\<close>

definition ToNumber :: "(string \<Rightarrow> real option) \<Rightarrow> js_value \<Rightarrow> real option" where
  "ToNumber tn v =
     (case v of Undefined \<Rightarrow> None | Null \<Rightarrow> Some 0 | Bool b \<Rightarrow> Some (if b then 1 else 0)
      | Number x \<Rightarrow> Some x | Str s \<Rightarrow> tn s | Obj s \<Rightarrow> tn s)"

record js_fund_value =
  js_amount :: js_value
  js_currency :: "string option"

text \<open>
  The services, with the string conversion and with what \<open>convertToBaseCurrency\<close>
  does when it is handed a value that is not a number.
\<close>

record js_services = services +
  StringToNumber :: "string \<Rightarrow> real option"
  convertNonNumber :: "js_value \<Rightarrow> string option \<Rightarrow> string + real"

text \<open>Line 185: \<open>!amount || amount <= 0\<close>; a comparison with \<open>NaN\<close> is false.\<close>

definition amount_rejected :: "(string \<Rightarrow> real option) \<Rightarrow> js_value \<Rightarrow> bool" where
  "amount_rejected tn v \<longleftrightarrow>
     \<not> truthy v \<or> (case ToNumber tn v of None \<Rightarrow> False | Some x \<Rightarrow> x \<le> 0)"

definition convert_js :: "js_services \<Rightarrow> js_value \<Rightarrow> string option \<Rightarrow> string + real" where
  "convert_js sv v cur =
     (case v of Number x \<Rightarrow> convertToBaseCurrency sv x cur
      | other \<Rightarrow> convertNonNumber sv other cur)"

text \<open>Line 227, on the sum of line 224: \<open>Infinity >= targetAmount\<close> holds.\<close>

definition reaches_target :: "real \<Rightarrow> goal \<Rightarrow> bool" where
  "reaches_target convertedAmount goalToFund =
     (case js_add (currentAmount goalToFund) convertedAmount of
        Num x \<Rightarrow> x \<ge> targetAmount goalToFund | PosInf \<Rightarrow> True | NegInf \<Rightarrow> False
      | NaN \<Rightarrow> False)"

text \<open>
  Lines 223-230 and 237-244. A goal here holds finite amounts: where the code would keep
  \<open>-Infinity\<close> as the funded amount or \<open>Infinity\<close> as the savings, which takes a
  converted amount below \<open>-10\<^sup>3\<^sup>0\<^sup>7\<close>, the result is \<open>None\<close>.
\<close>

definition credit_js :: "real \<Rightarrow> goal \<Rightarrow> goal option" where
  "credit_js convertedAmount goalToFund =
     (if reaches_target convertedAmount goalToFund
      then Some (goalToFund\<lparr>currentAmount := targetAmount goalToFund, status := Completed\<rparr>)
      else (case js_add (currentAmount goalToFund) convertedAmount of
              Num x \<Rightarrow> Some (goalToFund\<lparr>currentAmount := x\<rparr>)
            | other \<Rightarrow> None))"

definition debit_js :: "real \<Rightarrow> goal \<Rightarrow> goal option" where
  "debit_js convertedAmount savingsGoal =
     (case js_sub (currentAmount savingsGoal) convertedAmount of
        Num x \<Rightarrow>
          Some (if x \<le> 0 then savingsGoal\<lparr>currentAmount := 0, status := InProgress\<rparr>
                else savingsGoal\<lparr>currentAmount := x\<rparr>)
      | NegInf \<Rightarrow> Some (savingsGoal\<lparr>currentAmount := 0, status := InProgress\<rparr>)
      | other \<Rightarrow> None)"

definition transfer_js ::
  "js_services \<Rightarrow> string \<Rightarrow> real \<Rightarrow> goal \<Rightarrow> goal \<Rightarrow> world \<Rightarrow> (response \<times> world) option" where
  "transfer_js sv uid convertedAmount savingsGoal goalToFund w =
     (case credit_js convertedAmount goalToFund of
        None \<Rightarrow> None
      | Some funded \<Rightarrow>
          (let reached = reaches_target convertedAmount goalToFund
           in case (if reached
                    then sendEmail sv uid ''Goal Completed!'' (completion_message funded)
                    else None) of
                Some e \<Rightarrow>
                  Some (\<lparr>code = 500, msg = ''Error funding goal'', payload = ErrorText e\<rparr>,
                        emit [EmailSent] w)
              | None \<Rightarrow>
                  (case debit_js convertedAmount savingsGoal of
                     None \<Rightarrow> None
                   | Some savings \<Rightarrow>
                       (let db1 = save goalToFund funded (goals w);
                            db2 = save savingsGoal savings db1
                        in Some (\<lparr>code = 200, msg = ''Goal funded successfully'',
                                  payload = FundedData funded savings convertedAmount
                                              (BASE_CURRENCY sv)\<rparr>,
                                 emit ((if reached then [EmailSent] else [])
                                        @ [GoalWrite (goal_id funded), GoalWrite (goal_id savings)])
                                      (w\<lparr>goals := db2\<rparr>))))))"

definition addFundToGoal_js ::
  "('b \<Rightarrow> string option \<times> js_fund_value) \<Rightarrow> js_services \<Rightarrow> 'b request \<Rightarrow> world
     \<Rightarrow> (response \<times> world) option" where
  "addFundToGoal_js validate sv req w =
     (let id = params_id req;
          (error, val) = validate (body req);
          amount = js_amount val;
          userId = user_userId req
      in if amount_rejected (StringToNumber sv) amount then Some (invalid_amount, w)
         else
           (case convert_js sv amount (js_currency val) of
              Inl e \<Rightarrow>
                Some (\<lparr>code = 500, msg = ''Error converting currency'', payload = ErrorText e\<rparr>,
                      emit [CurrencyConversion] w)
            | Inr convertedAmount \<Rightarrow>
                (let w1 = emit [CurrencyConversion, GoalRead] w
                 in case find (is_savings_goal userId) (goals w) of
                      None \<Rightarrow>
                        Some (\<lparr>code = 404, msg = ''Savings Goal not found'', payload = NoData\<rparr>, w1)
                    | Some savingsGoal \<Rightarrow>
                        if convertedAmount > currentAmount savingsGoal
                        then Some (\<lparr>code = 400, msg = ''Insufficient funds in Savings Goal'',
                                    payload = Insufficient (currentAmount savingsGoal)
                                                convertedAmount (BASE_CURRENCY sv)\<rparr>, w1)
                        else
                          (let w2 = emit [GoalRead] w1
                           in case find (is_goal_of id userId) (goals w) of
                                None \<Rightarrow>
                                  Some (\<lparr>code = 404, msg = ''Goal to fund not found'',
                                         payload = NoData\<rparr>, w2)
                              | Some goalToFund \<Rightarrow>
                                  transfer_js sv userId convertedAmount savingsGoal goalToFund w2))))"

section \<open>Creating and editing goals (createGoal, updateGoal)\<close>





fun findOneAndUpdate :: "(goal \<Rightarrow> bool) \<Rightarrow> (goal \<Rightarrow> goal) \<Rightarrow> goal list \<Rightarrow> goal option \<times> goal list" where
  "findOneAndUpdate P f [] = (None, [])"
| "findOneAndUpdate P f (g # gs) =
     (if P g then (Some (f g), f g # gs)
      else (case findOneAndUpdate P f gs of (r, gs') \<Rightarrow> (r, g # gs')))"


section \<open>Invariants of a goal\<close>



text \<open>Identifiers are unique in a collection.\<close>

definition unique_ids :: "goal list \<Rightarrow> bool" where
  "unique_ids db \<longleftrightarrow> distinct (map goal_id db)"


section \<open>Test data\<close>

definition identity_services :: services where
  "identity_services =
     \<lparr> convertToBaseCurrency = (\<lambda>amt cur. Inr amt),
       sendEmail = (\<lambda>uid subject message. None),
       BASE_CURRENCY = Some ''LKR'' \<rparr>"

definition accept :: "'v \<Rightarrow> string option \<times> 'v" where
  "accept v = (None, v)"

definition reject :: "string \<Rightarrow> 'v \<Rightarrow> string option \<times> 'v" where
  "reject e v = (Some e, v)"

definition savings_500 :: goal where
  "savings_500 =
     \<lparr> goal_id = ''s1'', userId = ''u1'', name = ''Savings Goal'', targetAmount = 1000,
       currentAmount = 500, deadline = None, status = InProgress \<rparr>"


definition laptop_900 :: goal where
  "laptop_900 =
     \<lparr> goal_id = ''g1'', userId = ''u1'', name = ''Laptop'', targetAmount = 1000,
       currentAmount = 900, deadline = None, status = InProgress \<rparr>"

definition trip_0 :: goal where
  "trip_0 =
     \<lparr> goal_id = ''g2'', userId = ''u1'', name = ''Trip'', targetAmount = 5000,
       currentAmount = 0, deadline = None, status = InProgress \<rparr>"

definition fund_req :: "string \<Rightarrow> real \<Rightarrow> fund_value request" where
  "fund_req i amt =
     \<lparr> params_id = i, body = \<lparr>amount = Some amt, currency = Some ''LKR''\<rparr>,
       user_userId = ''u1'' \<rparr>"


definition world_of :: "goal list \<Rightarrow> world" where
  "world_of db = \<lparr>goals = db, trace = []\<rparr>"

text \<open>The string conversion on the strings used below; \<open>"abc"\<close> gives \<open>NaN\<close>.\<close>

definition js_strings :: "string \<Rightarrow> real option" where
  "js_strings = map_of [(''5'', 5), (''-5'', - 5), ('''', 0)]"

definition js_services_1 :: js_services where
  "js_services_1 =
     \<lparr> convertToBaseCurrency = (\<lambda>amt cur. Inr amt),
       sendEmail = (\<lambda>uid subject message. None),
       BASE_CURRENCY = Some ''LKR'',
       StringToNumber = js_strings,
       convertNonNumber = (\<lambda>v cur. Inl ''amount is not a number'') \<rparr>"

definition js_fund_req :: "string \<Rightarrow> js_value \<Rightarrow> js_fund_value request" where
  "js_fund_req i v =
     \<lparr> params_id = i, body = \<lparr>js_amount = v, js_currency = Some ''LKR''\<rparr>,
       user_userId = ''u1'' \<rparr>"

section \<open>Budgets and reports\<close>

text \<open>
  The budget and report controllers (controllers/budgetController.js and
  controllers/reportController.js) are not part of the sources: only their tests are.
  Their operations are modelled from the specification, as loops over the stored
  documents.
\<close>

datatype tx_type = Income | Expense

record transaction =
  tx_userId :: string
  tx_type :: tx_type
  tx_amount :: real
  tx_category :: string
  tx_date :: int

record budget =
  budget_id :: string
  budget_userId :: string
  budget_category :: string
  budget_amount :: real
  budget_duration :: string
  budget_currency :: "string option"

record category =
  cat_name :: string
  cat_type :: tx_type
  cat_active :: bool

datatype failure = NotFound | InvalidCategory | Conflict

fun status_code :: "failure \<Rightarrow> nat" where
  "status_code NotFound = 404"
| "status_code InvalidCategory = 400"
| "status_code Conflict = 409"

subsection \<open>createBudget\<close>

record budget_value =
  bv_category :: string
  bv_amount :: real
  bv_duration :: string
  bv_currency :: "string option"

text \<open>
  Modelled from the spec: createBudget (setBudget in the tests) is missing from the sources.
  It rejects with InvalidCategory if the category does not exist or is inactive in the
  registry, rejects with Conflict if a budget already exists for (userId, category), and
  otherwise stores a new budget. The spec does not say which of the two checks is made
  first, and the tests give the same answers either way: the order is a parameter.
\<close>

datatype check_order = CategoryFirst | DuplicateFirst

definition category_check :: "category list \<Rightarrow> budget_value \<Rightarrow> failure option" where
  "category_check registry v =
     (case find (\<lambda>c. cat_name c = bv_category v \<and> cat_active c) registry of
        None \<Rightarrow> Some InvalidCategory
      | Some c \<Rightarrow> None)"

definition duplicate_check :: "string \<Rightarrow> budget_value \<Rightarrow> budget list \<Rightarrow> failure option" where
  "duplicate_check uid v db =
     (case find (\<lambda>b. budget_userId b = uid \<and> budget_category b = bv_category v) db of
        Some existing \<Rightarrow> Some Conflict
      | None \<Rightarrow> None)"

definition first_failure :: "failure option \<Rightarrow> failure option \<Rightarrow> failure option" where
  "first_failure a b = (case a of Some f \<Rightarrow> Some f | None \<Rightarrow> b)"

definition createBudget ::
  "check_order \<Rightarrow> category list \<Rightarrow> string \<Rightarrow> string \<Rightarrow> budget_value \<Rightarrow> budget list
     \<Rightarrow> failure + budget \<times> budget list" where
  "createBudget order registry fresh uid v db =
     (case (case order of
              CategoryFirst \<Rightarrow>
                first_failure (category_check registry v) (duplicate_check uid v db)
            | DuplicateFirst \<Rightarrow>
                first_failure (duplicate_check uid v db) (category_check registry v)) of
        Some f \<Rightarrow> Inl f
      | None \<Rightarrow>
          (let b = \<lparr> budget_id = fresh, budget_userId = uid,
                      budget_category = bv_category v, budget_amount = bv_amount v,
                      budget_duration = bv_duration v, budget_currency = bv_currency v \<rparr>
           in Inr (b, db @ [b])))"

definition budget_keys :: "budget list \<Rightarrow> (string \<times> string) list" where
  "budget_keys db = map (\<lambda>b. (budget_userId b, budget_category b)) db"

subsection \<open>recommendations\<close>

record recommendation =
  rec_category :: string
  rec_spent :: real
  rec_percentage :: int

text \<open>
  Modelled from the spec: recommendations (getBudgetRecommendations in the tests) is
  missing from the sources. For every budget owned by the user it sums the expense-type
  transactions of the user in that category over the duration window and gives
  \<open>percentage = round (spent / budget.amount * 100)\<close>; it fails with NotFound if the user
  has no budgets. The duration window is a parameter: \<open>in_window duration date\<close>.
\<close>

fun spent_loop :: "(transaction \<Rightarrow> bool) \<Rightarrow> transaction list \<Rightarrow> real \<Rightarrow> real" where
  "spent_loop counts [] acc = acc"
| "spent_loop counts (t # ts) acc =
     spent_loop counts ts (if counts t then acc + tx_amount t else acc)"

definition counts_for :: "(string \<Rightarrow> int \<Rightarrow> bool) \<Rightarrow> string \<Rightarrow> budget \<Rightarrow> transaction \<Rightarrow> bool" where
  "counts_for in_window uid b t \<longleftrightarrow>
     tx_userId t = uid \<and> tx_type t = Expense \<and> tx_category t = budget_category b
       \<and> in_window (budget_duration b) (tx_date t)"

definition recommend :: "(string \<Rightarrow> int \<Rightarrow> bool) \<Rightarrow> string \<Rightarrow> transaction list \<Rightarrow> budget \<Rightarrow> recommendation" where
  "recommend in_window uid txs b =
     (let spent = spent_loop (counts_for in_window uid b) txs 0
      in \<lparr> rec_category = budget_category b, rec_spent = spent,
           rec_percentage = round (spent / budget_amount b * 100) \<rparr>)"

definition recommendations ::
  "(string \<Rightarrow> int \<Rightarrow> bool) \<Rightarrow> string \<Rightarrow> budget list \<Rightarrow> transaction list
     \<Rightarrow> failure + recommendation list" where
  "recommendations in_window uid budgets txs =
     (let owned = filter (\<lambda>b. budget_userId b = uid) budgets
      in if owned = [] then Inl NotFound
         else Inr (map (recommend in_window uid txs) owned))"

subsection \<open>trends\<close>

record category_totals =
  income :: real
  expense :: real

record trends_report =
  totalIncome :: real
  totalExpense :: real
  netBalance :: real
  categoryBreakdown :: "(string \<times> category_totals) list"

text \<open>
  Modelled from the spec: trends (generateReport in the tests) is missing from the sources.
  It partitions the user's transactions into income and expense totals and a per-category
  \<open>{income, expense}\<close> breakdown, with \<open>netBalance = totalIncome - totalExpense\<close>. The
  breakdown is an object keyed by category, here an association list in order of first
  occurrence.
\<close>

definition add_amount :: "transaction \<Rightarrow> category_totals \<Rightarrow> category_totals" where
  "add_amount t ct =
     (case tx_type t of
        Income \<Rightarrow> ct\<lparr>income := income ct + tx_amount t\<rparr>
      | Expense \<Rightarrow> ct\<lparr>expense := expense ct + tx_amount t\<rparr>)"

fun add_to_breakdown ::
  "transaction \<Rightarrow> (string \<times> category_totals) list \<Rightarrow> (string \<times> category_totals) list" where
  "add_to_breakdown t [] = [(tx_category t, add_amount t \<lparr>income = 0, expense = 0\<rparr>)]"
| "add_to_breakdown t ((c, ct) # rest) =
     (if c = tx_category t then (c, add_amount t ct) # rest
      else (c, ct) # add_to_breakdown t rest)"

fun trends_loop :: "transaction list \<Rightarrow> trends_report \<Rightarrow> trends_report" where
  "trends_loop [] r = r"
| "trends_loop (t # ts) r =
     trends_loop ts
       (case tx_type t of
          Income \<Rightarrow> r\<lparr>totalIncome := totalIncome r + tx_amount t,
                       categoryBreakdown := add_to_breakdown t (categoryBreakdown r)\<rparr>
        | Expense \<Rightarrow> r\<lparr>totalExpense := totalExpense r + tx_amount t,
                        categoryBreakdown := add_to_breakdown t (categoryBreakdown r)\<rparr>)"

definition trends :: "string \<Rightarrow> transaction list \<Rightarrow> trends_report" where
  "trends uid txs =
     (let r = trends_loop (filter (\<lambda>t. tx_userId t = uid) txs)
                \<lparr>totalIncome = 0, totalExpense = 0, netBalance = 0, categoryBreakdown = []\<rparr>
      in r\<lparr>netBalance := totalIncome r - totalExpense r\<rparr>)"

text \<open>The sums the claims speak of, stated directly.\<close>

definition total_of :: "tx_type \<Rightarrow> transaction list \<Rightarrow> real" where
  "total_of ty txs = sum_list (map tx_amount (filter (\<lambda>t. tx_type t = ty) txs))"

definition category_total :: "tx_type \<Rightarrow> string \<Rightarrow> transaction list \<Rightarrow> real" where
  "category_total ty c txs =
     sum_list (map tx_amount (filter (\<lambda>t. tx_type t = ty \<and> tx_category t = c) txs))"

definition mine :: "string \<Rightarrow> transaction list \<Rightarrow> transaction list" where
  "mine uid txs = filter (\<lambda>t. tx_userId t = uid) txs"

text \<open>The totals recorded for a category, zero when it has no entry.\<close>

definition totals_in :: "(string \<times> category_totals) list \<Rightarrow> string \<Rightarrow> category_totals" where
  "totals_in bd c = (case map_of bd c of None \<Rightarrow> \<lparr>income = 0, expense = 0\<rparr> | Some ct \<Rightarrow> ct)"

subsection \<open>Test data\<close>

definition food_registry :: "category list" where
  "food_registry =
     [\<lparr>cat_name = ''Food'', cat_type = Expense, cat_active = True\<rparr>,
      \<lparr>cat_name = ''Transport'', cat_type = Expense, cat_active = True\<rparr>]"

definition retired_registry :: "category list" where
  "retired_registry =
     [\<lparr>cat_name = ''Food'', cat_type = Expense, cat_active = False\<rparr>,
      \<lparr>cat_name = ''Transport'', cat_type = Expense, cat_active = True\<rparr>]"

definition food_value :: budget_value where
  "food_value =
     \<lparr>bv_category = ''Food'', bv_amount = 1000, bv_duration = ''monthly'',
      bv_currency = Some ''USD''\<rparr>"

definition food_budget :: budget where
  "food_budget =
     \<lparr> budget_id = ''b1'', budget_userId = ''u1'', budget_category = ''Food'',
       budget_amount = 1000, budget_duration = ''monthly'', budget_currency = Some ''USD'' \<rparr>"

definition food_900 :: transaction where
  "food_900 =
     \<lparr>tx_userId = ''u1'', tx_type = Expense, tx_amount = 900, tx_category = ''Food'',
      tx_date = 10\<rparr>"

definition salary_1000 :: transaction where
  "salary_1000 =
     \<lparr>tx_userId = ''u1'', tx_type = Income, tx_amount = 1000, tx_category = ''Salary'',
      tx_date = 5\<rparr>"

definition food_500 :: transaction where
  "food_500 =
     \<lparr>tx_userId = ''u1'', tx_type = Expense, tx_amount = 500, tx_category = ''Food'',
      tx_date = 7\<rparr>"

definition always :: "string \<Rightarrow> int \<Rightarrow> bool" where
  "always d t = True"

section \<open>Goal progress\<close>

lemmas double_eval =
  to_double_def binary_exponent_def clog2_def ilog2.simps round_half_even_def
  js_add_def js_sub_def js_div_def js_mul_def js_gt_def Math_round_def Math_min_def Let_def






text \<open>
  The rounding of the quotient shows in the result: 23 of 40 is 57.49999999999999 percent
  in binary64 and gives 57, where the exact 57.5 would give 58; likewise 29 of 200.
\<close>

lemma progress_23_of_40:
  "goal_progress (mk_goal 23 40) = Num 57 \<and> round (23 / 40 * 100 :: real) = 58"
  by (simp add: goal_progress_def mk_goal_def double_eval round_def)

lemma progress_29_of_200:
  "goal_progress (mk_goal 29 200) = Num 14 \<and> round (29 / 200 * 100 :: real) = 15"
  by (simp add: goal_progress_def mk_goal_def double_eval round_def)

section \<open>The store under save\<close>

lemma find_SomeD: "find P xs = Some x \<Longrightarrow> x \<in> set xs \<and> P x"
  by (induction xs) (auto split: if_splits)

lemma findById_unique: "unique_ids db \<Longrightarrow> x \<in> set db \<Longrightarrow> findById (goal_id x) db = Some x"
  by (induction db) (auto simp: unique_ids_def findById_def)

lemma save_ids: "map goal_id (save l doc db) = map goal_id db"
  by (induction db) (auto simp: save_def)

lemma save_targets: "map targetAmount (save l doc db) = map targetAmount db"
  by (induction db) (auto simp: save_def)

lemma save_unique_ids: "unique_ids (save l doc db) = unique_ids db"
  by (simp add: unique_ids_def save_ids)

lemma findById_save_other:
  "j \<noteq> goal_id doc \<Longrightarrow> findById j (save l doc db) = findById j db"
  by (induction db) (auto simp: save_def findById_def)

lemma findById_save_loaded:
  "findById (goal_id doc) db = Some l \<Longrightarrow>
   \<exists>d. findById (goal_id doc) (save l doc db) = Some d
      \<and> currentAmount d = currentAmount doc \<and> status d = status doc
      \<and> targetAmount d = targetAmount l \<and> goal_id d = goal_id l"
  by (induction db) (auto simp: save_def findById_def split: if_splits)


lemma credit_fields [simp]:
  "goal_id (credit a g) = goal_id g" "targetAmount (credit a g) = targetAmount g"
  "userId (credit a g) = userId g" "name (credit a g) = name g"
  by (simp_all add: credit_def Let_def)

lemma debit_fields [simp]:
  "goal_id (debit a g) = goal_id g" "targetAmount (debit a g) = targetAmount g"
  "userId (debit a g) = userId g" "name (debit a g) = name g"
  by (simp_all add: debit_def Let_def)

lemma credit_amount: "currentAmount (credit a g) = min (targetAmount g) (currentAmount g + a)"
  by (simp add: credit_def Let_def min_def)

lemma debit_amount: "a \<le> currentAmount s \<Longrightarrow> currentAmount (debit a s) = currentAmount s - a"
  by (simp add: debit_def Let_def)

lemma credit_status:
  "status (credit a g) = (if currentAmount g + a \<ge> targetAmount g then Completed else status g)"
  by (simp add: credit_def Let_def)

lemma debit_status:
  "status (debit a s) = (if currentAmount s - a \<le> 0 then InProgress else status s)"
  by (simp add: debit_def Let_def)


section \<open>Rejected fund requests\<close>

text \<open>
  C2. When the converted amount exceeds the currentAmount of the user's Savings Goal,
  addFundToGoal answers 400 "Insufficient funds in Savings Goal" with
  savingsGoalCurrentAmount, requestedAmount and baseCurrency; the goal collection is
  unchanged and the only calls made were the conversion and one goal read.
\<close>

theorem addFundToGoal_insufficient_funds:
  assumes "validate (body req) = (err, val)" and "amount val = Some amt" and "0 < amt"
    and "convertToBaseCurrency sv amt (currency val) = Inr a"
    and "find (is_savings_goal (user_userId req)) (goals w) = Some s"
    and "a > currentAmount s"
  shows "fst (addFundToGoal validate sv req w) =
           \<lparr>code = 400, msg = ''Insufficient funds in Savings Goal'',
            payload = Insufficient (currentAmount s) a (BASE_CURRENCY sv)\<rparr>
       \<and> goals (snd (addFundToGoal validate sv req w)) = goals w
       \<and> trace (snd (addFundToGoal validate sv req w)) = trace w @ [CurrencyConversion, GoalRead]"
  using assms by (simp add: addFundToGoal_def Let_def emit_def)

text \<open>
  The unit test: the only goal is the Savings Goal at 500, and 600 is requested for it.
\<close>

theorem addFundToGoal_insufficient_funds_witness:
  "fst (addFundToGoal accept identity_services (fund_req ''s1'' 600) (world_of [savings_500])) =
      \<lparr>code = 400, msg = ''Insufficient funds in Savings Goal'',
        payload = Insufficient 500 600 (Some ''LKR'')\<rparr>
   \<and> goals (snd (addFundToGoal accept identity_services (fund_req ''s1'' 600)
          (world_of [savings_500]))) = [savings_500]"
  using addFundToGoal_insufficient_funds [of accept "fund_req ''s1'' 600" None
      "\<lparr>amount = Some 600, currency = Some ''LKR''\<rparr>" 600 identity_services 600
      "world_of [savings_500]" savings_500]
  by (simp add: accept_def fund_req_def identity_services_def world_of_def savings_500_def
      is_savings_goal_def)

text \<open>
  C10. The error returned by fundGoalSchema.validate is never inspected: when validation
  fails but the value carries a positive amount, addFundToGoal behaves exactly as if
  validation had succeeded. It does not answer with the invalid-amount response, its only
  possible 400 is the insufficient-funds one, it calls the currency conversion, and
  after a successful conversion it goes on to read the Savings Goal.
\<close>

theorem addFundToGoal_ignores_schema_error:
  assumes "validate (body req) = (Some e, val)" and "amount val = Some amt" and "0 < amt"
  shows "addFundToGoal validate sv req w = addFundToGoal (\<lambda>b. (None, val)) sv req w
       \<and> fst (addFundToGoal validate sv req w) \<noteq> invalid_amount
       \<and> (code (fst (addFundToGoal validate sv req w)) = 400 \<longrightarrow>
            msg (fst (addFundToGoal validate sv req w)) = ''Insufficient funds in Savings Goal'')
       \<and> (\<exists>es. trace (snd (addFundToGoal validate sv req w)) = trace w @ CurrencyConversion # es
             \<and> (\<forall>a. convertToBaseCurrency sv amt (currency val) = Inr a \<longrightarrow>
                   es \<noteq> [] \<and> hd es = GoalRead))"
proof -
  have a: "addFundToGoal validate sv req w = addFundToGoal (\<lambda>b. (None, val)) sv req w"
    using assms by (simp add: addFundToGoal_def)
  have b: "fst (addFundToGoal validate sv req w) \<noteq> invalid_amount"
    using assms
    by (auto simp: addFundToGoal_def transfer_def invalid_amount_def Let_def
        split: option.splits sum.splits if_splits)
  have c: "code (fst (addFundToGoal validate sv req w)) = 400 \<longrightarrow>
            msg (fst (addFundToGoal validate sv req w)) = ''Insufficient funds in Savings Goal''"
    using assms
    by (auto simp: addFundToGoal_def transfer_def invalid_amount_def Let_def
        split: option.splits sum.splits if_splits)
  have d: "\<exists>es. trace (snd (addFundToGoal validate sv req w)) = trace w @ CurrencyConversion # es
             \<and> (\<forall>a. convertToBaseCurrency sv amt (currency val) = Inr a \<longrightarrow>
                   es \<noteq> [] \<and> hd es = GoalRead)"
    using assms
    by (auto simp: addFundToGoal_def transfer_def emit_def Let_def
        split: option.splits sum.splits if_splits)
  from a b c d show ?thesis by blast
qed

theorem addFundToGoal_ignores_schema_error_witness:
  "reject ''currency is required'' \<lparr>amount = Some 200, currency = None\<rparr>
     = (Some ''currency is required'', \<lparr>amount = Some 200, currency = None\<rparr>)
   \<and> addFundToGoal (reject ''currency is required'') identity_services
        \<lparr>params_id = ''g2'', body = \<lparr>amount = Some 200, currency = None\<rparr>,
          user_userId = ''u1''\<rparr>
        (world_of [savings_500, trip_0])
     = addFundToGoal (\<lambda>b. (None, \<lparr>amount = Some 200, currency = None\<rparr>)) identity_services
        \<lparr>params_id = ''g2'', body = \<lparr>amount = Some 200, currency = None\<rparr>,
          user_userId = ''u1''\<rparr>
        (world_of [savings_500, trip_0])
   \<and> code (fst (addFundToGoal (reject ''currency is required'') identity_services
        \<lparr>params_id = ''g2'', body = \<lparr>amount = Some 200, currency = None\<rparr>,
          user_userId = ''u1''\<rparr>
        (world_of [savings_500, trip_0]))) = 200"
proof -
  have h: "reject ''currency is required'' \<lparr>amount = Some 200, currency = None\<rparr>
     = (Some ''currency is required'', \<lparr>amount = Some 200, currency = None\<rparr>)"
    by (simp add: reject_def)
  have c: "code (fst (addFundToGoal (\<lambda>b. (None, \<lparr>amount = Some 200, currency = None\<rparr>))
        identity_services
        \<lparr>params_id = ''g2'', body = \<lparr>amount = Some 200, currency = None\<rparr>,
          user_userId = ''u1''\<rparr>
        (world_of [savings_500, trip_0]))) = 200"
    by (simp add: addFundToGoal_def transfer_def identity_services_def world_of_def
        savings_500_def trip_0_def is_savings_goal_def is_goal_of_def credit_def debit_def
        Let_def)
  show ?thesis
    using addFundToGoal_ignores_schema_error [of "reject ''currency is required''"
        "\<lparr>params_id = ''g2'', body = \<lparr>amount = Some 200, currency = None\<rparr>,
          user_userId = ''u1''\<rparr>" "''currency is required''"
        "\<lparr>amount = Some 200, currency = None\<rparr>" 200 identity_services
        "world_of [savings_500, trip_0]"] h c
    by simp
qed

section \<open>A fund request with a non-numeric amount\<close>

lemmas js_eval =
  addFundToGoal_js_def transfer_js_def credit_js_def debit_js_def reaches_target_def
  double_eval amount_rejected_def truthy_def ToNumber_def convert_js_def
  js_services_1_def js_strings_def js_fund_req_def accept_def reject_def world_of_def
  is_savings_goal_def is_goal_of_def save_def emit_def invalid_amount_def

lemma addFundToGoal_js_rejected:
  "amount_rejected (StringToNumber sv) (js_amount (snd (validate (body req)))) \<Longrightarrow>
   addFundToGoal_js validate sv req w = Some (invalid_amount, w)"
  by (auto simp: addFundToGoal_js_def Let_def split: prod.splits)

lemma amount_rejected_cases:
  "amount_rejected tn Undefined" "amount_rejected tn Null"
  "x \<le> 0 \<Longrightarrow> amount_rejected tn (Number x)"
  "0 < x \<Longrightarrow> \<not> amount_rejected tn (Number x)"
  by (simp_all add: amount_rejected_def truthy_def ToNumber_def)

text \<open>
  C5. Every amount that is missing or not greater than 0 is to be refused with 400
  before any currency conversion. The handler never tests the error of
  \<open>fundGoalSchema.validate\<close>, and its own guard lets through every amount that is
  truthy and compares as \<open>NaN\<close>, such as the string \<open>"abc"\<close> handed back by a failed
  validation: the answer is then not the invalid-amount response, and the currency
  conversion is called; when that conversion fails, the answer is 500.
\<close>

theorem addFundToGoal_js_non_numeric_amount:
  assumes v: "js_amount (snd (validate (body req))) = v" and t: "truthy v"
    and n: "ToNumber (StringToNumber sv) v = None"
  shows "\<not> amount_rejected (StringToNumber sv) v
       \<and> addFundToGoal_js validate sv req w \<noteq> Some (invalid_amount, w)
       \<and> (\<forall>e. convertNonNumber sv v (js_currency (snd (validate (body req)))) = Inl e \<longrightarrow>
             addFundToGoal_js validate sv req w
               = Some (\<lparr>code = 500, msg = ''Error converting currency'', payload = ErrorText e\<rparr>,
                       emit [CurrencyConversion] w))
       \<and> (\<forall>r w'. addFundToGoal_js validate sv req w = Some (r, w') \<longrightarrow>
             r \<noteq> invalid_amount \<and> (\<exists>es. trace w' = trace w @ CurrencyConversion # es))"
proof -
  have nr: "\<not> amount_rejected (StringToNumber sv) v"
    using t n by (simp add: amount_rejected_def)
  have cv: "convert_js sv v cur = convertNonNumber sv v cur" for cur
    using n by (cases v) (simp_all add: convert_js_def ToNumber_def)
  have fail: "\<forall>e. convertNonNumber sv v (js_currency (snd (validate (body req)))) = Inl e \<longrightarrow>
             addFundToGoal_js validate sv req w
               = Some (\<lparr>code = 500, msg = ''Error converting currency'', payload = ErrorText e\<rparr>,
                       emit [CurrencyConversion] w)"
  proof (intro allI impI)
    fix e
    assume c: "convertNonNumber sv v (js_currency (snd (validate (body req)))) = Inl e"
    have c': "convert_js sv (js_amount (snd (validate (body req))))
          (js_currency (snd (validate (body req)))) = Inl e"
      using c cv v by simp
    have nr': "\<not> amount_rejected (StringToNumber sv) (js_amount (snd (validate (body req))))"
      using nr v by simp
    from c' nr' show "addFundToGoal_js validate sv req w
               = Some (\<lparr>code = 500, msg = ''Error converting currency'', payload = ErrorText e\<rparr>,
                       emit [CurrencyConversion] w)"
      by (auto simp: addFundToGoal_js_def Let_def split: prod.splits)
  qed
  have all: "\<forall>r w'. addFundToGoal_js validate sv req w = Some (r, w') \<longrightarrow>
             r \<noteq> invalid_amount \<and> (\<exists>es. trace w' = trace w @ CurrencyConversion # es)"
    using v nr
    by (auto simp: addFundToGoal_js_def transfer_js_def invalid_amount_def emit_def Let_def
        split: prod.splits option.splits if_splits sum.splits)
  then have "addFundToGoal_js validate sv req w \<noteq> Some (invalid_amount, w)" by auto
  with nr fail all show ?thesis by blast
qed

theorem addFundToGoal_js_non_numeric_amount_witness:
  "truthy (Str ''abc'')
   \<and> ToNumber (StringToNumber js_services_1) (Str ''abc'') = None
   \<and> addFundToGoal_js (reject ''amount must be a number'') js_services_1
        (js_fund_req ''g1'' (Str ''abc'')) (world_of [savings_500, laptop_900])
      = Some (\<lparr>code = 500, msg = ''Error converting currency'',
                payload = ErrorText ''amount is not a number''\<rparr>,
              \<lparr>goals = [savings_500, laptop_900], trace = [CurrencyConversion]\<rparr>)
   \<and> addFundToGoal_js (reject ''amount must be a number'') js_services_1
        (js_fund_req ''g1'' (Str ''abc'')) (world_of [savings_500, laptop_900])
      \<noteq> Some (invalid_amount, world_of [savings_500, laptop_900])"
proof -
  have v: "js_amount (snd (reject ''amount must be a number'' (body (js_fund_req ''g1'' (Str ''abc'')))))
      = Str ''abc''"
    by (simp add: reject_def js_fund_req_def)
  have t: "truthy (Str ''abc'')" by (simp add: truthy_def)
  have n: "ToNumber (StringToNumber js_services_1) (Str ''abc'') = None"
    by (simp add: ToNumber_def js_services_1_def js_strings_def)
  have c: "convertNonNumber js_services_1 (Str ''abc'')
        (js_currency (snd (reject ''amount must be a number''
           (body (js_fund_req ''g1'' (Str ''abc''))))))
      = Inl ''amount is not a number''"
    by (simp add: js_services_1_def)
  note r = addFundToGoal_js_non_numeric_amount
      [where validate = "reject ''amount must be a number''"
         and req = "js_fund_req ''g1'' (Str ''abc'')" and sv = js_services_1
         and v = "Str ''abc''" and w = "world_of [savings_500, laptop_900]", OF v t n]
  from r have ne: "addFundToGoal_js (reject ''amount must be a number'') js_services_1
        (js_fund_req ''g1'' (Str ''abc'')) (world_of [savings_500, laptop_900])
      \<noteq> Some (invalid_amount, world_of [savings_500, laptop_900])"
    by blast
  from r c have "addFundToGoal_js (reject ''amount must be a number'') js_services_1
        (js_fund_req ''g1'' (Str ''abc'')) (world_of [savings_500, laptop_900])
      = Some (\<lparr>code = 500, msg = ''Error converting currency'',
                payload = ErrorText ''amount is not a number''\<rparr>,
              emit [CurrencyConversion] (world_of [savings_500, laptop_900]))"
    by blast
  then have e: "addFundToGoal_js (reject ''amount must be a number'') js_services_1
        (js_fund_req ''g1'' (Str ''abc'')) (world_of [savings_500, laptop_900])
      = Some (\<lparr>code = 500, msg = ''Error converting currency'',
                payload = ErrorText ''amount is not a number''\<rparr>,
              \<lparr>goals = [savings_500, laptop_900], trace = [CurrencyConversion]\<rparr>)"
    by (simp add: emit_def world_of_def)
  from t n e ne show ?thesis by blast
qed

section \<open>A successful transfer\<close>


section \<open>A successful transfer in binary64\<close>

lemma round_half_even_nonneg: "0 \<le> y \<Longrightarrow> 0 \<le> round_half_even y"
  by (auto simp: round_half_even_def Let_def)

lemma to_double_nonneg: "0 \<le> x \<Longrightarrow> to_double x = Num y \<Longrightarrow> 0 \<le> y"
proof -
  assume x: "0 \<le> x" and d: "to_double x = Num y"
  show ?thesis
  proof (cases "x = 0")
    case True
    with d show ?thesis by (simp add: to_double_def)
  next
    case False
    define e where "e = max (binary_exponent \<bar>x\<bar> - 52) (- 1074)"
    define m where "m = round_half_even (\<bar>x\<bar> / 2 powi e)"
    have "0 \<le> \<bar>x\<bar> / 2 powi e" by simp
    then have m0: "0 \<le> m" unfolding m_def by (rule round_half_even_nonneg)
    from d False x have "y = sgn x * (of_int m * 2 powi e)"
      by (simp add: to_double_def Let_def e_def m_def split: if_splits)
    moreover have "sgn x = 1" using x False by simp
    ultimately show ?thesis using m0 by simp
  qed
qed

lemma to_double_not_NegInf: "0 \<le> x \<Longrightarrow> to_double x \<noteq> NegInf"
  by (auto simp: to_double_def Let_def)

lemma credit_js_fields:
  "credit_js a g = Some fd \<Longrightarrow>
     goal_id fd = goal_id g \<and> targetAmount fd = targetAmount g \<and> userId fd = userId g
       \<and> name fd = name g"
  by (auto simp: credit_js_def split: if_splits jsnum.splits)

lemma debit_js_fields:
  "debit_js a s = Some sd \<Longrightarrow>
     goal_id sd = goal_id s \<and> targetAmount sd = targetAmount s \<and> userId sd = userId s
       \<and> name sd = name s"
  by (auto simp: debit_js_def split: if_splits jsnum.splits)

lemma credit_js_amount:
  "credit_js a g = Some fd \<Longrightarrow>
     (js_add (currentAmount g) a = PosInf \<and> currentAmount fd = targetAmount g)
     \<or> (\<exists>y. js_add (currentAmount g) a = Num y \<and> currentAmount fd = min (targetAmount g) y)"
  by (auto simp: credit_js_def reaches_target_def min_def split: if_splits jsnum.splits)

lemma debit_js_amount:
  assumes d: "debit_js a s = Some sd" and le: "a \<le> currentAmount s"
  shows "\<exists>x. js_sub (currentAmount s) a = Num x \<and> currentAmount sd = x"
proof -
  have nn: "0 \<le> currentAmount s - a" using le by simp
  have "js_sub (currentAmount s) a \<noteq> NegInf"
    unfolding js_sub_def using nn by (rule to_double_not_NegInf)
  with d obtain x where x: "js_sub (currentAmount s) a = Num x"
    by (auto simp: debit_js_def split: jsnum.splits)
  then have "to_double (currentAmount s - a) = Num x" by (simp add: js_sub_def)
  with nn have "0 \<le> x" by (rule to_double_nonneg)
  with d x have "currentAmount sd = x"
    by (auto simp: debit_js_def split: if_splits)
  with x show ?thesis by simp
qed

text \<open>The only path of addFundToGoal_js that answers 200.\<close>

lemma addFundToGoal_js_success:
  assumes "addFundToGoal_js validate sv req w = Some (r, w')" "code r = 200"
  shows "\<exists>a s g fd sd.
       \<not> amount_rejected (StringToNumber sv) (js_amount (snd (validate (body req))))
     \<and> convert_js sv (js_amount (snd (validate (body req))))
          (js_currency (snd (validate (body req)))) = Inr a
     \<and> find (is_savings_goal (user_userId req)) (goals w) = Some s
     \<and> a \<le> currentAmount s
     \<and> find (is_goal_of (params_id req) (user_userId req)) (goals w) = Some g
     \<and> credit_js a g = Some fd \<and> debit_js a s = Some sd
     \<and> r = \<lparr>code = 200, msg = ''Goal funded successfully'',
              payload = FundedData fd sd a (BASE_CURRENCY sv)\<rparr>
     \<and> goals w' = save s sd (save g fd (goals w))"
  using assms
  by (auto simp: addFundToGoal_js_def transfer_js_def invalid_amount_def emit_def Let_def
      split: prod.splits option.splits if_splits sum.splits)

lemma stored_after_saves:
  assumes u: "unique_ids db" and s: "s \<in> set db" and g: "g \<in> set db"
    and ne: "goal_id g \<noteq> goal_id s"
    and fd: "goal_id fd = goal_id g" and sd: "goal_id sd = goal_id s"
  shows "\<exists>s' g'. findById (goal_id s) (save s sd (save g fd db)) = Some s'
      \<and> findById (goal_id g) (save s sd (save g fd db)) = Some g'
      \<and> currentAmount s' = currentAmount sd \<and> status s' = status sd
      \<and> currentAmount g' = currentAmount fd \<and> status g' = status fd"
proof -
  let ?db1 = "save g fd db"
  have fs: "findById (goal_id s) db = Some s" and fg: "findById (goal_id g) db = Some g"
    using u s g by (simp_all add: findById_unique)
  from fg fd have "findById (goal_id fd) db = Some g" by simp
  from findById_save_loaded [OF this] fd
  obtain g' where g': "findById (goal_id g) ?db1 = Some g'"
    "currentAmount g' = currentAmount fd" "status g' = status fd"
    by auto
  have "findById (goal_id s) ?db1 = Some s"
    using fs ne fd by (simp add: findById_save_other)
  then have "findById (goal_id sd) ?db1 = Some s" using sd by simp
  from findById_save_loaded [OF this] sd
  obtain s' where s': "findById (goal_id s) (save s sd ?db1) = Some s'"
    "currentAmount s' = currentAmount sd" "status s' = status sd"
    by auto
  have "findById (goal_id g) (save s sd ?db1) = Some g'"
    using g' ne sd by (simp add: findById_save_other)
  with s' g' show ?thesis by simp
qed

text \<open>With sums and differences that need no rounding, the two transfers agree.\<close>

lemma transfer_js_exact:
  assumes add: "js_add (currentAmount g) a = Num (currentAmount g + a)"
    and sub: "js_sub (currentAmount s) a = Num (currentAmount s - a)"
  shows "transfer_js sv uid a s g w = Some (transfer (services.truncate sv) uid a s g w)"
proof -
  have r: "reaches_target a g \<longleftrightarrow> currentAmount g + a \<ge> targetAmount g"
    using add by (simp add: reaches_target_def)
  have c: "credit_js a g = Some (credit a g)"
    using add r by (simp add: credit_js_def credit_def Let_def)
  have d: "debit_js a s = Some (debit a s)"
    using sub by (simp add: debit_js_def debit_def Let_def)
  show ?thesis
    by (simp add: transfer_js_def transfer_def c d r services.truncate_def Let_def
        split: option.splits)
qed

text \<open>
  C1 (as amended). For every successful transfer from the Savings Goal to a different
  goal with converted amount a: the Savings Goal's currentAmount becomes the binary64
  result of currentAmount - a; the target goal's currentAmount becomes the binary64
  result of currentAmount + a, or its targetAmount when that result reaches it; the
  response reports these stored amounts. When neither result needs rounding, the sum of
  the two amounts is unchanged if the target's old amount plus a does not exceed its
  targetAmount, and otherwise drops by the excess that the cap cuts off.
\<close>

theorem addFundToGoal_js_transfer_amounts:
  assumes run: "addFundToGoal_js validate sv req w = Some (r, w')" and ok: "code r = 200"
    and u: "unique_ids (goals w)"
    and fs: "find (is_savings_goal (user_userId req)) (goals w) = Some s"
    and fg: "find (is_goal_of (params_id req) (user_userId req)) (goals w) = Some g"
    and ne: "goal_id g \<noteq> goal_id s"
  shows "\<exists>a s' g' fd sd x.
       convert_js sv (js_amount (snd (validate (body req))))
          (js_currency (snd (validate (body req)))) = Inr a
     \<and> a \<le> currentAmount s
     \<and> findById (goal_id s) (goals w') = Some s'
     \<and> findById (goal_id g) (goals w') = Some g'
     \<and> payload r = FundedData fd sd a (BASE_CURRENCY sv)
     \<and> currentAmount fd = currentAmount g' \<and> currentAmount sd = currentAmount s'
     \<and> js_sub (currentAmount s) a = Num x \<and> currentAmount s' = x
     \<and> ((js_add (currentAmount g) a = PosInf \<and> currentAmount g' = targetAmount g)
          \<or> (\<exists>y. js_add (currentAmount g) a = Num y
                  \<and> currentAmount g' = min (targetAmount g) y))
     \<and> (js_sub (currentAmount s) a = Num (currentAmount s - a)
          \<and> js_add (currentAmount g) a = Num (currentAmount g + a) \<longrightarrow>
            (currentAmount g + a \<le> targetAmount g \<longrightarrow>
               currentAmount g' + currentAmount s' = currentAmount g + currentAmount s)
          \<and> (targetAmount g < currentAmount g + a \<longrightarrow>
               currentAmount g' + currentAmount s'
                 = currentAmount g + currentAmount s - (currentAmount g + a - targetAmount g)))"
proof -
  from addFundToGoal_js_success [OF run ok] fs fg
  obtain a fd sd where
    conv: "convert_js sv (js_amount (snd (validate (body req))))
          (js_currency (snd (validate (body req)))) = Inr a"
    and le: "a \<le> currentAmount s"
    and cr: "credit_js a g = Some fd" and de: "debit_js a s = Some sd"
    and r: "r = \<lparr>code = 200, msg = ''Goal funded successfully'',
              payload = FundedData fd sd a (BASE_CURRENCY sv)\<rparr>"
    and db: "goals w' = save s sd (save g fd (goals w))"
    by auto
  have sin: "s \<in> set (goals w)" and gin: "g \<in> set (goals w)"
    using fs fg by (auto dest: find_SomeD)
  have idf: "goal_id fd = goal_id g" using credit_js_fields [OF cr] by simp
  have ids: "goal_id sd = goal_id s" using debit_js_fields [OF de] by simp
  from stored_after_saves [OF u sin gin ne idf ids] db
  obtain s' g' where st: "findById (goal_id s) (goals w') = Some s'"
    "findById (goal_id g) (goals w') = Some g'"
    "currentAmount s' = currentAmount sd" "currentAmount g' = currentAmount fd"
    by auto
  from debit_js_amount [OF de le]
  obtain x where x: "js_sub (currentAmount s) a = Num x" "currentAmount sd = x" by blast
  have c: "(js_add (currentAmount g) a = PosInf \<and> currentAmount g' = targetAmount g)
          \<or> (\<exists>y. js_add (currentAmount g) a = Num y
                  \<and> currentAmount g' = min (targetAmount g) y)"
    using credit_js_amount [OF cr] st by simp
  have pl: "payload r = FundedData fd sd a (BASE_CURRENCY sv)" using r by simp
  have sums: "js_sub (currentAmount s) a = Num (currentAmount s - a)
          \<and> js_add (currentAmount g) a = Num (currentAmount g + a) \<longrightarrow>
            (currentAmount g + a \<le> targetAmount g \<longrightarrow>
               currentAmount g' + currentAmount s' = currentAmount g + currentAmount s)
          \<and> (targetAmount g < currentAmount g + a \<longrightarrow>
               currentAmount g' + currentAmount s'
                 = currentAmount g + currentAmount s - (currentAmount g + a - targetAmount g))"
    using x c st by (auto simp: min_def)
  from conv le st pl x c sums show ?thesis by auto
qed

theorem addFundToGoal_js_transfer_amounts_witness:
  "map_option (code \<circ> fst)
      (addFundToGoal_js accept js_services_1 (js_fund_req ''g2'' (Number 200))
         (world_of [savings_500, trip_0])) = Some 200
   \<and> unique_ids (goals (world_of [savings_500, trip_0]))
   \<and> find (is_savings_goal ''u1'') (goals (world_of [savings_500, trip_0])) = Some savings_500
   \<and> find (is_goal_of ''g2'' ''u1'') (goals (world_of [savings_500, trip_0])) = Some trip_0
   \<and> goal_id trip_0 \<noteq> goal_id savings_500
   \<and> (\<exists>r w' s' g'. addFundToGoal_js accept js_services_1 (js_fund_req ''g2'' (Number 200))
                       (world_of [savings_500, trip_0]) = Some (r, w')
          \<and> findById ''s1'' (goals w') = Some s' \<and> findById ''g2'' (goals w') = Some g'
          \<and> currentAmount s' = 300 \<and> currentAmount g' = 200)"
proof -
  let ?w = "world_of [savings_500, trip_0]"
  let ?req = "js_fund_req ''g2'' (Number 200)"
  obtain r w' where run: "addFundToGoal_js accept js_services_1 ?req ?w = Some (r, w')"
    and ok: "code r = 200"
    by (simp add: js_eval savings_500_def trip_0_def)
  have u: "unique_ids (goals ?w)"
    by (simp add: unique_ids_def world_of_def savings_500_def trip_0_def)
  have fs: "find (is_savings_goal (user_userId ?req)) (goals ?w) = Some savings_500"
    by (simp add: is_savings_goal_def world_of_def savings_500_def js_fund_req_def)
  have fg: "find (is_goal_of (params_id ?req) (user_userId ?req)) (goals ?w) = Some trip_0"
    by (simp add: is_goal_of_def world_of_def savings_500_def trip_0_def js_fund_req_def)
  have ne: "goal_id trip_0 \<noteq> goal_id savings_500"
    by (simp add: savings_500_def trip_0_def)
  have sub: "js_sub (currentAmount savings_500) 200 = Num 300"
    by (simp add: double_eval savings_500_def)
  have add: "js_add (currentAmount trip_0) 200 = Num 200"
    by (simp add: double_eval trip_0_def)
  have conv: "convert_js js_services_1 (js_amount (snd (accept (body ?req))))
          (js_currency (snd (accept (body ?req)))) = Inr 200"
    by (simp add: convert_js_def js_services_1_def js_fund_req_def accept_def)
  from addFundToGoal_js_transfer_amounts [OF run ok u fs fg ne] conv sub add
  obtain s' g' where "findById (goal_id savings_500) (goals w') = Some s'"
    "findById (goal_id trip_0) (goals w') = Some g'"
    "currentAmount s' = 300" "currentAmount g' = min (targetAmount trip_0) 200"
    by auto
  then have "findById ''s1'' (goals w') = Some s' \<and> findById ''g2'' (goals w') = Some g'
          \<and> currentAmount s' = 300 \<and> currentAmount g' = 200"
    by (simp add: savings_500_def trip_0_def)
  with run have ex: "\<exists>r w' s' g'. addFundToGoal_js accept js_services_1 ?req ?w = Some (r, w')
          \<and> findById ''s1'' (goals w') = Some s' \<and> findById ''g2'' (goals w') = Some g'
          \<and> currentAmount s' = 300 \<and> currentAmount g' = 200"
    by blast
  from run ok have c: "map_option (code \<circ> fst) (addFundToGoal_js accept js_services_1 ?req ?w)
      = Some 200" by simp
  from c u fs fg ne ex show ?thesis by (simp add: js_fund_req_def)
qed

text \<open>
  C1 as stated fails. Savings Goal at 500, target goal at 900 of 1000, funding 200: the
  transfer succeeds, the amounts go from 500 and 900 to 300 and 1000, and their sum from
  1400 to 1300.
\<close>

theorem capped_transfer_counterexample:
  "map_option (code \<circ> fst)
      (addFundToGoal_js accept js_services_1 (js_fund_req ''g1'' (Number 200))
         (world_of [savings_500, laptop_900])) = Some 200
   \<and> map currentAmount (goals (world_of [savings_500, laptop_900])) = [500, 900]
   \<and> map_option (map currentAmount \<circ> goals \<circ> snd)
      (addFundToGoal_js accept js_services_1 (js_fund_req ''g1'' (Number 200))
         (world_of [savings_500, laptop_900])) = Some [300, 1000]
   \<and> sum_list (map currentAmount (goals (world_of [savings_500, laptop_900]))) = 1400
   \<and> map_option (sum_list \<circ> map currentAmount \<circ> goals \<circ> snd)
      (addFundToGoal_js accept js_services_1 (js_fund_req ''g1'' (Number 200))
         (world_of [savings_500, laptop_900])) = Some 1300"
  by (simp add: js_eval savings_500_def laptop_900_def)

text \<open>
  Rounding alone changes the sum as well: with the doubles nearest 0.3, 0.7 and 0.1 the
  stored amounts become 0.19999999999999998 and 0.7999999999999999, and no cap applies.
\<close>

lemma rounded_transfer_example:
  "map_option (map currentAmount \<circ> goals \<circ> snd)
      (addFundToGoal_js accept js_services_1
         (js_fund_req ''g1'' (Number (3602879701896397 / 36028797018963968)))
         (world_of [savings_500\<lparr>currentAmount := 5404319552844595 / 18014398509481984\<rparr>,
                    laptop_900\<lparr>currentAmount := 3152519739159347 / 4503599627370496\<rparr>]))
     = Some [7205759403792793 / 36028797018963968, 7205759403792793 / 9007199254740992]
   \<and> 5404319552844595 / 18014398509481984 + 3152519739159347 / 4503599627370496
       \<noteq> (7205759403792793 / 36028797018963968 + 7205759403792793 / 9007199254740992 :: real)"
  by (simp add: js_eval savings_500_def laptop_900_def)

section \<open>Bounds on the amounts\<close>








lemma findOneAndUpdate_None:
  "fst (findOneAndUpdate P f db) = None \<Longrightarrow> snd (findOneAndUpdate P f db) = db \<and> find P db = None"
  by (induction db) (auto split: prod.splits if_splits)








section \<open>Status of a goal\<close>









section \<open>Budget recommendations\<close>

lemma spent_loop_sum:
  "spent_loop counts txs acc = acc + sum_list (map tx_amount (filter counts txs))"
  by (induction txs arbitrary: acc) simp_all

lemma counts_for_fun:
  "counts_for in_window uid b =
     (\<lambda>t. tx_userId t = uid \<and> tx_type t = Expense \<and> tx_category t = budget_category b
           \<and> in_window (budget_duration b) (tx_date t))"
  by (rule ext) (simp add: counts_for_def)

text \<open>
  C6. recommendations fails with NotFound (404) when the user owns no budget. Otherwise it
  returns one entry per budget the user owns, in order, where spent is the sum of the
  user's expense-type transactions in the budget's category inside the duration window
  and percentage is \<open>round (spent / budget.amount * 100)\<close>; spent 900 on a budget of 1000
  gives 90. Budget amounts are positive.
\<close>

theorem recommendations_percentage:
  assumes pos: "\<forall>b\<in>set budgets. 0 < budget_amount b"
  shows "(filter (\<lambda>b. budget_userId b = uid) budgets = [] \<longrightarrow>
            recommendations in_window uid budgets txs = Inl NotFound \<and> status_code NotFound = 404)
       \<and> (filter (\<lambda>b. budget_userId b = uid) budgets \<noteq> [] \<longrightarrow>
            (\<exists>rs. recommendations in_window uid budgets txs = Inr rs
               \<and> map rec_category rs
                    = map budget_category (filter (\<lambda>b. budget_userId b = uid) budgets)
               \<and> map rec_spent rs
                    = map (\<lambda>b. sum_list (map tx_amount
                              (filter (\<lambda>t. tx_userId t = uid \<and> tx_type t = Expense
                                 \<and> tx_category t = budget_category b
                                 \<and> in_window (budget_duration b) (tx_date t)) txs)))
                        (filter (\<lambda>b. budget_userId b = uid) budgets)
               \<and> map rec_percentage rs
                    = map (\<lambda>b. round (sum_list (map tx_amount
                              (filter (\<lambda>t. tx_userId t = uid \<and> tx_type t = Expense
                                 \<and> tx_category t = budget_category b
                                 \<and> in_window (budget_duration b) (tx_date t)) txs))
                            / budget_amount b * 100))
                        (filter (\<lambda>b. budget_userId b = uid) budgets)))
       \<and> map rec_percentage (projr (recommendations always ''u1'' [food_budget] [food_900])) = [90]"
proof (intro conjI impI)
  assume "filter (\<lambda>b. budget_userId b = uid) budgets = []"
  then show "recommendations in_window uid budgets txs = Inl NotFound"
    by (simp add: recommendations_def)
next
  show "status_code NotFound = 404" by simp
next
  let ?owned = "filter (\<lambda>b. budget_userId b = uid) budgets"
  assume ne: "?owned \<noteq> []"
  have r: "recommendations in_window uid budgets txs = Inr (map (recommend in_window uid txs) ?owned)"
    using ne by (simp add: recommendations_def Let_def)
  have c: "map rec_category (map (recommend in_window uid txs) ?owned) = map budget_category ?owned"
    by (simp add: recommend_def Let_def comp_def)
  have sp: "\<And>b. rec_spent (recommend in_window uid txs b)
      = sum_list (map tx_amount
                              (filter (\<lambda>t. tx_userId t = uid \<and> tx_type t = Expense
                                 \<and> tx_category t = budget_category b
                                 \<and> in_window (budget_duration b) (tx_date t)) txs))"
    by (simp add: recommend_def Let_def spent_loop_sum counts_for_fun)
  have pc: "\<And>b. rec_percentage (recommend in_window uid txs b)
      = round (sum_list (map tx_amount
                              (filter (\<lambda>t. tx_userId t = uid \<and> tx_type t = Expense
                                 \<and> tx_category t = budget_category b
                                 \<and> in_window (budget_duration b) (tx_date t)) txs))
                            / budget_amount b * 100)"
    by (simp add: recommend_def Let_def spent_loop_sum counts_for_fun)
  show "\<exists>rs. recommendations in_window uid budgets txs = Inr rs
               \<and> map rec_category rs = map budget_category ?owned
               \<and> map rec_spent rs
                    = map (\<lambda>b. sum_list (map tx_amount
                              (filter (\<lambda>t. tx_userId t = uid \<and> tx_type t = Expense
                                 \<and> tx_category t = budget_category b
                                 \<and> in_window (budget_duration b) (tx_date t)) txs))) ?owned
               \<and> map rec_percentage rs
                    = map (\<lambda>b. round (sum_list (map tx_amount
                              (filter (\<lambda>t. tx_userId t = uid \<and> tx_type t = Expense
                                 \<and> tx_category t = budget_category b
                                 \<and> in_window (budget_duration b) (tx_date t)) txs))
                            / budget_amount b * 100)) ?owned"
    using r c sp pc by (simp add: comp_def)
next
  show "map rec_percentage (projr (recommendations always ''u1'' [food_budget] [food_900])) = [90]"
    by (simp add: recommendations_def recommend_def counts_for_def always_def food_budget_def
        food_900_def Let_def)
qed

theorem recommendations_percentage_witness:
  "list_all (\<lambda>b. 0 < budget_amount b) [food_budget]
   \<and> recommendations always ''u2'' [food_budget] [food_900] = Inl NotFound
   \<and> (\<exists>rs. recommendations always ''u1'' [food_budget] [food_900] = Inr rs
          \<and> map rec_spent rs = [900] \<and> map rec_percentage rs = [90])"
proof -
  have pos: "\<forall>b\<in>set [food_budget]. 0 < budget_amount b" by (simp add: food_budget_def)
  have none: "filter (\<lambda>b. budget_userId b = ''u2'') [food_budget] = []"
    by (simp add: food_budget_def)
  have some: "filter (\<lambda>b. budget_userId b = ''u1'') [food_budget] = [food_budget]"
    by (simp add: food_budget_def)
  have 1: "recommendations always ''u2'' [food_budget] [food_900] = Inl NotFound"
    using recommendations_percentage [OF pos, of "''u2''" always "[food_900]"] none by blast
  have "\<exists>rs. recommendations always ''u1'' [food_budget] [food_900] = Inr rs
      \<and> map rec_spent rs
           = map (\<lambda>b. sum_list (map tx_amount
                              (filter (\<lambda>t. tx_userId t = ''u1'' \<and> tx_type t = Expense
                                 \<and> tx_category t = budget_category b
                                 \<and> always (budget_duration b) (tx_date t)) [food_900])))
               [food_budget]
      \<and> map rec_percentage rs
           = map (\<lambda>b. round (sum_list (map tx_amount
                              (filter (\<lambda>t. tx_userId t = ''u1'' \<and> tx_type t = Expense
                                 \<and> tx_category t = budget_category b
                                 \<and> always (budget_duration b) (tx_date t)) [food_900]))
                            / budget_amount b * 100))
               [food_budget]"
    using recommendations_percentage [OF pos, of "''u1''" always "[food_900]"] some by auto
  then have 2: "\<exists>rs. recommendations always ''u1'' [food_budget] [food_900] = Inr rs
          \<and> map rec_spent rs = [900] \<and> map rec_percentage rs = [90]"
    by (simp add: food_budget_def food_900_def always_def)
  from pos 1 2 show ?thesis by simp
qed

section \<open>Creating a budget\<close>

lemma find_key_None:
  "find (\<lambda>b. budget_userId b = uid \<and> budget_category b = c) db = None
     \<longleftrightarrow> (uid, c) \<notin> set (budget_keys db)"
  by (auto simp: find_None_iff budget_keys_def)

lemma category_check_None:
  "category_check registry v = None
     \<longleftrightarrow> (\<exists>c\<in>set registry. cat_name c = bv_category v \<and> cat_active c)"
proof (cases "find (\<lambda>c. cat_name c = bv_category v \<and> cat_active c) registry")
  case None
  then have "category_check registry v = Some InvalidCategory"
    by (simp add: category_check_def)
  moreover from None
  have "\<not> (\<exists>c\<in>set registry. cat_name c = bv_category v \<and> cat_active c)"
    by (simp add: find_None_iff)
  ultimately show ?thesis by simp
next
  case (Some c)
  then have "c \<in> set registry \<and> cat_name c = bv_category v \<and> cat_active c"
    by (auto dest: find_SomeD)
  with Some show ?thesis by (auto simp: category_check_def)
qed

lemma category_check_cases:
  "category_check registry v = None \<or> category_check registry v = Some InvalidCategory"
  by (simp add: category_check_def split: option.splits)

lemma duplicate_check_None:
  "duplicate_check uid v db = None \<longleftrightarrow> (uid, bv_category v) \<notin> set (budget_keys db)"
  using find_key_None [of uid "bv_category v" db]
  by (auto simp: duplicate_check_def split: option.splits)

lemma duplicate_check_cases:
  "duplicate_check uid v db = None \<or> duplicate_check uid v db = Some Conflict"
  by (simp add: duplicate_check_def split: option.splits)

text \<open>
  C7. createBudget rejects every request whose category does not exist or is inactive, and
  every request for a (userId, category) pair that already has a budget. The rejection is
  InvalidCategory (400) in the first case and Conflict (409) in the second; a request
  that is in both cases gets the one whose check is made first. A request that succeeds
  has an active category and a pair with no budget, and adds exactly that pair, so
  budgets that were unique per (userId, category) stay unique.
\<close>

theorem createBudget_rejections:
  "(\<not> (\<exists>c\<in>set registry. cat_name c = bv_category v \<and> cat_active c) \<longrightarrow>
       (\<exists>f. createBudget order registry fresh uid v db = Inl f)
       \<and> (order = CategoryFirst \<or> (uid, bv_category v) \<notin> set (budget_keys db) \<longrightarrow>
            createBudget order registry fresh uid v db = Inl InvalidCategory))
   \<and> ((uid, bv_category v) \<in> set (budget_keys db) \<longrightarrow>
       (\<exists>f. createBudget order registry fresh uid v db = Inl f)
       \<and> (order = DuplicateFirst
            \<or> (\<exists>c\<in>set registry. cat_name c = bv_category v \<and> cat_active c) \<longrightarrow>
            createBudget order registry fresh uid v db = Inl Conflict))
   \<and> status_code InvalidCategory = 400 \<and> status_code Conflict = 409
   \<and> (\<forall>b db'. createBudget order registry fresh uid v db = Inr (b, db') \<longrightarrow>
         (\<exists>c\<in>set registry. cat_name c = bv_category v \<and> cat_active c)
         \<and> (uid, bv_category v) \<notin> set (budget_keys db)
         \<and> budget_keys db' = budget_keys db @ [(uid, bv_category v)]
         \<and> (distinct (budget_keys db) \<longrightarrow> distinct (budget_keys db')))"
proof -
  let ?valid = "\<exists>c\<in>set registry. cat_name c = bv_category v \<and> cat_active c"
  let ?has = "(uid, bv_category v) \<in> set (budget_keys db)"
  let ?R = "createBudget order registry fresh uid v db"
  have cc: "category_check registry v = (if ?valid then None else Some InvalidCategory)"
    using category_check_None [of registry v] category_check_cases [of registry v] by auto
  have dc: "duplicate_check uid v db = (if ?has then Some Conflict else None)"
    using duplicate_check_None [of uid v db] duplicate_check_cases [of uid v db] by auto
  have inv: "\<not> ?valid \<longrightarrow> (\<exists>f. ?R = Inl f)
       \<and> (order = CategoryFirst \<or> \<not> ?has \<longrightarrow> ?R = Inl InvalidCategory)"
    by (cases order) (auto simp: createBudget_def first_failure_def cc dc)
  have dup: "?has \<longrightarrow> (\<exists>f. ?R = Inl f)
       \<and> (order = DuplicateFirst \<or> ?valid \<longrightarrow> ?R = Inl Conflict)"
    by (cases order) (auto simp: createBudget_def first_failure_def cc dc)
  have ok: "\<forall>b db'. ?R = Inr (b, db') \<longrightarrow>
         ?valid \<and> \<not> ?has
         \<and> budget_keys db' = budget_keys db @ [(uid, bv_category v)]
         \<and> (distinct (budget_keys db) \<longrightarrow> distinct (budget_keys db'))"
    by (cases order)
      (auto simp: createBudget_def first_failure_def cc dc budget_keys_def Let_def
        split: if_splits)
  have codes: "status_code InvalidCategory = 400 \<and> status_code Conflict = 409" by simp
  from inv dup ok codes show ?thesis by blast
qed

theorem createBudget_rejections_witness:
  "createBudget CategoryFirst food_registry ''b2'' ''u1''
       (food_value\<lparr>bv_category := ''Sport''\<rparr>) [food_budget] = Inl InvalidCategory
   \<and> createBudget DuplicateFirst food_registry ''b2'' ''u1''
       (food_value\<lparr>bv_category := ''Sport''\<rparr>) [food_budget] = Inl InvalidCategory
   \<and> createBudget CategoryFirst food_registry ''b2'' ''u1'' food_value [food_budget] = Inl Conflict
   \<and> createBudget DuplicateFirst food_registry ''b2'' ''u1'' food_value [food_budget] = Inl Conflict
   \<and> createBudget CategoryFirst retired_registry ''b2'' ''u1'' food_value [food_budget]
       = Inl InvalidCategory
   \<and> createBudget DuplicateFirst retired_registry ''b2'' ''u1'' food_value [food_budget]
       = Inl Conflict
   \<and> distinct (budget_keys [food_budget])
   \<and> (\<exists>b. createBudget CategoryFirst food_registry ''b2'' ''u1''
              (food_value\<lparr>bv_category := ''Transport''\<rparr>) [food_budget]
            = Inr (b, [food_budget, b])
          \<and> distinct (budget_keys [food_budget, b]))"
proof -
  let ?sport = "food_value\<lparr>bv_category := ''Sport''\<rparr>"
  let ?transport = "food_value\<lparr>bv_category := ''Transport''\<rparr>"
  have i: "\<not> (\<exists>c\<in>set food_registry. cat_name c = bv_category ?sport \<and> cat_active c)"
    by (simp add: food_registry_def food_value_def)
  have ns: "(''u1'', bv_category ?sport) \<notin> set (budget_keys [food_budget])"
    by (simp add: budget_keys_def food_budget_def food_value_def)
  have a: "\<exists>c\<in>set food_registry. cat_name c = bv_category food_value \<and> cat_active c"
    by (simp add: food_registry_def food_value_def)
  have r: "\<not> (\<exists>c\<in>set retired_registry. cat_name c = bv_category food_value \<and> cat_active c)"
    by (simp add: retired_registry_def food_value_def)
  have k: "(''u1'', bv_category food_value) \<in> set (budget_keys [food_budget])"
    by (simp add: budget_keys_def food_budget_def food_value_def)
  have d: "distinct (budget_keys [food_budget])" by (simp add: budget_keys_def)
  have 1: "createBudget CategoryFirst food_registry ''b2'' ''u1'' ?sport [food_budget]
      = Inl InvalidCategory"
    using createBudget_rejections [of food_registry ?sport CategoryFirst "''b2''" "''u1''"
        "[food_budget]"] i by blast
  have 2: "createBudget DuplicateFirst food_registry ''b2'' ''u1'' ?sport [food_budget]
      = Inl InvalidCategory"
    using createBudget_rejections [of food_registry ?sport DuplicateFirst "''b2''" "''u1''"
        "[food_budget]"] i ns by blast
  have 3: "createBudget CategoryFirst food_registry ''b2'' ''u1'' food_value [food_budget]
      = Inl Conflict"
    using createBudget_rejections [of food_registry food_value CategoryFirst "''b2''" "''u1''"
        "[food_budget]"] a k by blast
  have 4: "createBudget DuplicateFirst food_registry ''b2'' ''u1'' food_value [food_budget]
      = Inl Conflict"
    using createBudget_rejections [of food_registry food_value DuplicateFirst "''b2''" "''u1''"
        "[food_budget]"] k by blast
  have 5: "createBudget CategoryFirst retired_registry ''b2'' ''u1'' food_value [food_budget]
      = Inl InvalidCategory"
    using createBudget_rejections [of retired_registry food_value CategoryFirst "''b2''" "''u1''"
        "[food_budget]"] r by blast
  have 6: "createBudget DuplicateFirst retired_registry ''b2'' ''u1'' food_value [food_budget]
      = Inl Conflict"
    using createBudget_rejections [of retired_registry food_value DuplicateFirst "''b2''" "''u1''"
        "[food_budget]"] k by blast
  have "\<exists>b. createBudget CategoryFirst food_registry ''b2'' ''u1'' ?transport [food_budget]
            = Inr (b, [food_budget, b])"
    by (simp add: createBudget_def first_failure_def category_check_def duplicate_check_def
        food_registry_def food_value_def food_budget_def Let_def)
  then obtain b where b: "createBudget CategoryFirst food_registry ''b2'' ''u1'' ?transport
      [food_budget] = Inr (b, [food_budget, b])" by blast
  have 7: "distinct (budget_keys [food_budget, b])"
    using createBudget_rejections [of food_registry ?transport CategoryFirst "''b2''" "''u1''"
        "[food_budget]"] b d by blast
  from 1 2 3 4 5 6 7 b d show ?thesis by blast
qed

section \<open>Financial trends\<close>

lemma map_of_add_to_breakdown:
  "map_of (add_to_breakdown t bd)
     = (map_of bd)(tx_category t \<mapsto> add_amount t (totals_in bd (tx_category t)))"
  by (induction bd) (auto simp: totals_in_def)

lemma keys_add_to_breakdown:
  "fst ` set (add_to_breakdown t bd) = insert (tx_category t) (fst ` set bd)"
proof -
  have "dom (map_of (add_to_breakdown t bd)) = insert (tx_category t) (dom (map_of bd))"
    by (simp add: map_of_add_to_breakdown)
  then show ?thesis by (simp add: dom_map_of_conv_image_fst)
qed

lemma distinct_add_to_breakdown:
  "distinct (map fst bd) \<Longrightarrow> distinct (map fst (add_to_breakdown t bd))"
  by (induction bd) (auto simp: keys_add_to_breakdown)

lemma trends_loop_income:
  "totalIncome (trends_loop ts r) = totalIncome r + total_of Income ts"
  by (induction ts arbitrary: r) (auto simp: total_of_def split: tx_type.splits)

lemma trends_loop_expense:
  "totalExpense (trends_loop ts r) = totalExpense r + total_of Expense ts"
  by (induction ts arbitrary: r) (auto simp: total_of_def split: tx_type.splits)

lemma trends_loop_breakdown:
  "categoryBreakdown (trends_loop ts r) = fold add_to_breakdown ts (categoryBreakdown r)"
  by (induction ts arbitrary: r) (auto split: tx_type.splits)

lemma distinct_fold_breakdown:
  "distinct (map fst bd) \<Longrightarrow> distinct (map fst (fold add_to_breakdown ts bd))"
  by (induction ts arbitrary: bd) (auto simp: distinct_add_to_breakdown)

lemma category_total_Cons:
  "category_total ty c (t # ts)
     = (if tx_type t = ty \<and> tx_category t = c then tx_amount t else 0) + category_total ty c ts"
  by (simp add: category_total_def)

lemma totals_in_add:
  "totals_in (add_to_breakdown t bd) c
     = (if c = tx_category t then add_amount t (totals_in bd c) else totals_in bd c)"
  by (simp add: totals_in_def map_of_add_to_breakdown)

lemma totals_in_fold:
  "income (totals_in (fold add_to_breakdown ts bd) c)
      = income (totals_in bd c) + category_total Income c ts
   \<and> expense (totals_in (fold add_to_breakdown ts bd) c)
      = expense (totals_in bd c) + category_total Expense c ts"
proof (induction ts arbitrary: bd)
  case Nil
  then show ?case by (simp add: category_total_def)
next
  case (Cons t ts)
  show ?case
    by (simp add: Cons.IH totals_in_add category_total_Cons add_amount_def
        split: tx_type.splits)
qed

lemma keys_fold_breakdown:
  "fst ` set (fold add_to_breakdown ts bd) = tx_category ` set ts \<union> fst ` set bd"
  by (induction ts arbitrary: bd) (auto simp: keys_add_to_breakdown)

lemma map_of_fold_breakdown:
  "map_of (fold add_to_breakdown ts []) c
     = (if c \<in> tx_category ` set ts
        then Some \<lparr>income = category_total Income c ts, expense = category_total Expense c ts\<rparr>
        else None)"
proof (cases "c \<in> tx_category ` set ts")
  case False
  then have "c \<notin> fst ` set (fold add_to_breakdown ts [])"
    by (simp add: keys_fold_breakdown)
  then have "map_of (fold add_to_breakdown ts []) c = None"
    by (simp add: map_of_eq_None_iff)
  with False show ?thesis by simp
next
  case True
  then have "c \<in> fst ` set (fold add_to_breakdown ts [])"
    by (simp add: keys_fold_breakdown)
  then obtain ct where ct: "map_of (fold add_to_breakdown ts []) c = Some ct"
    by (metis map_of_eq_None_iff not_Some_eq)
  then have "totals_in (fold add_to_breakdown ts []) c = ct" by (simp add: totals_in_def)
  with totals_in_fold [of ts "[]" c]
  have "income ct = category_total Income c ts \<and> expense ct = category_total Expense c ts"
    by (simp add: totals_in_def)
  then have "ct = \<lparr>income = category_total Income c ts, expense = category_total Expense c ts\<rparr>"
    by simp
  with ct True show ?thesis by simp
qed

text \<open>
  C8. For every user and list of transactions, trends returns totalIncome, the sum of the
  user's income-type amounts, totalExpense, the sum of the user's expense-type amounts,
  netBalance = totalIncome - totalExpense, and a breakdown with one entry per category
  of the user's transactions, holding the income and expense sums of that category.
\<close>

theorem trends_totals:
  "totalIncome (trends uid txs)
     = sum_list (map tx_amount (filter (\<lambda>t. tx_type t = Income) (mine uid txs)))
   \<and> totalExpense (trends uid txs)
     = sum_list (map tx_amount (filter (\<lambda>t. tx_type t = Expense) (mine uid txs)))
   \<and> netBalance (trends uid txs) = totalIncome (trends uid txs) - totalExpense (trends uid txs)
   \<and> distinct (map fst (categoryBreakdown (trends uid txs)))
   \<and> map_of (categoryBreakdown (trends uid txs)) c
     = (if c \<in> tx_category ` set (mine uid txs)
        then Some \<lparr>income = sum_list (map tx_amount
                      (filter (\<lambda>t. tx_type t = Income \<and> tx_category t = c) (mine uid txs))),
                    expense = sum_list (map tx_amount
                      (filter (\<lambda>t. tx_type t = Expense \<and> tx_category t = c) (mine uid txs)))\<rparr>
        else None)
   \<and> trends ''u1'' [salary_1000, food_500]
     = \<lparr>totalIncome = 1000, totalExpense = 500, netBalance = 500,
        categoryBreakdown = [(''Salary'', \<lparr>income = 1000, expense = 0\<rparr>),
                             (''Food'', \<lparr>income = 0, expense = 500\<rparr>)]\<rparr>"
proof -
  let ?r = "trends_loop (mine uid txs)
              \<lparr>totalIncome = 0, totalExpense = 0, netBalance = 0, categoryBreakdown = []\<rparr>"
  have t: "trends uid txs = ?r\<lparr>netBalance := totalIncome ?r - totalExpense ?r\<rparr>"
    by (simp add: trends_def mine_def Let_def)
  have i: "totalIncome (trends uid txs)
     = sum_list (map tx_amount (filter (\<lambda>t. tx_type t = Income) (mine uid txs)))"
    by (simp add: t trends_loop_income total_of_def)
  have e: "totalExpense (trends uid txs)
     = sum_list (map tx_amount (filter (\<lambda>t. tx_type t = Expense) (mine uid txs)))"
    by (simp add: t trends_loop_expense total_of_def)
  have n: "netBalance (trends uid txs) = totalIncome (trends uid txs) - totalExpense (trends uid txs)"
    by (simp add: t)
  have b: "categoryBreakdown (trends uid txs) = fold add_to_breakdown (mine uid txs) []"
    by (simp add: t trends_loop_breakdown)
  have d: "distinct (map fst (categoryBreakdown (trends uid txs)))"
    unfolding b by (rule distinct_fold_breakdown) simp
  have m: "map_of (categoryBreakdown (trends uid txs)) c
     = (if c \<in> tx_category ` set (mine uid txs)
        then Some \<lparr>income = sum_list (map tx_amount
                      (filter (\<lambda>t. tx_type t = Income \<and> tx_category t = c) (mine uid txs))),
                    expense = sum_list (map tx_amount
                      (filter (\<lambda>t. tx_type t = Expense \<and> tx_category t = c) (mine uid txs)))\<rparr>
        else None)"
    unfolding b map_of_fold_breakdown category_total_def by (rule refl)
  have x: "trends ''u1'' [salary_1000, food_500]
     = \<lparr>totalIncome = 1000, totalExpense = 500, netBalance = 500,
        categoryBreakdown = [(''Salary'', \<lparr>income = 1000, expense = 0\<rparr>),
                             (''Food'', \<lparr>income = 0, expense = 500\<rparr>)]\<rparr>"
    by (simp add: trends_def salary_1000_def food_500_def add_amount_def Let_def)
  from i e n d m x show ?thesis by blast
qed

end
